theory Spec2Isabelle
  imports Main
begin

section \<open>Data model of \<open>GUI.py\<close>\<close>

text \<open>
  The program is a small batch image filter: \<open>read_image_from_directory\<close> lists a
  folder, builds one processor object per image-named entry, calls its \<open>process\<close>
  method and saves the result next to the source. Everything that touches pixels or the
  disk is done by OpenCV and the operating system; the program itself is the class
  hierarchy, the directory loop with its \<open>try\<close>/\<open>except\<close>, and the button handler.

  Python values are modelled as follows. A path or a file name is a \<open>string\<close>
  (ASCII text). An exception is a value of \<open>exn\<close>, carrying the text that \<open>str(e)\<close>
  gives; a call that may raise returns \<open>exn + 'a\<close> with \<open>Inl\<close> for the raise. Only
  classes derived from \<open>Exception\<close> are represented, which is what the calls made
  per file can raise and what \<open>except Exception\<close> catches.
\<close>

type_synonym path = string
type_synonym bytes = "nat list"

datatype exn =
    ValueError string
  | OSError string
  | cv2_error string

fun exn_str :: "exn \<Rightarrow> string" where
  "exn_str (ValueError m) = m"
| "exn_str (OSError m) = m"
| "exn_str (cv2_error m) = m"

text \<open>
  An image is the array \<open>cv2.imread\<close> returns: its shape (rows, columns, channels)
  and its samples.
\<close>

record image =
  rows :: nat
  cols :: nat
  channels :: nat
  samples :: "nat list"


text \<open>
  The observable world: the files on disk, the lines written by \<open>print\<close>, and the
  message boxes shown, each oldest first.
\<close>

type_synonym files = "path \<rightharpoonup> bytes"

record world =
  files :: files
  stdout :: "string list"
  dialogs :: "(string \<times> string) list"

text \<open>
  The calls that leave the program. They are parameters of the model: no property below
  depends on how OpenCV decodes, blurs or encodes, except where a hypothesis says so.
  \<^item> \<open>os_listdir\<close>: \<open>os.listdir(path)\<close>, the entry names of a directory, or an
    \<open>OSError\<close> when it does not exist or cannot be read;
  \<^item> \<open>cv2_imread\<close>: \<open>cv2.imread(filename)\<close>, which returns \<open>None\<close> for a file it
    cannot open or decode;
  \<^item> \<open>cv2_GaussianBlur\<close>: \<open>cv2.GaussianBlur(src, ksize, sigmaX)\<close>;
  \<^item> \<open>cv2_imwrite\<close>: \<open>cv2.imwrite(filename, img)\<close>. It returns \<open>True\<close> after
    writing the encoded bytes (\<open>Some\<close> of them here) and \<open>False\<close> when nothing was
    written (\<open>None\<close>);
  \<^item> \<open>builtin_int\<close>: Python's \<open>int(text)\<close>, which raises \<open>ValueError\<close> on text that
    is not an integer literal.
\<close>

record env =
  os_listdir :: "files \<Rightarrow> path \<Rightarrow> exn + string list"
  cv2_imread :: "files \<Rightarrow> path \<Rightarrow> exn + image option"
  cv2_GaussianBlur :: "image \<Rightarrow> int \<times> int \<Rightarrow> int \<Rightarrow> exn + image"
  cv2_imwrite :: "files \<Rightarrow> path \<Rightarrow> image \<Rightarrow> exn + bytes option"
  builtin_int :: "string \<Rightarrow> exn + int"

section \<open>Strings and paths\<close>

text \<open>\<open>str.lower()\<close> on ASCII text: the letters A to Z move to a to z.\<close>

definition lower_char :: "char \<Rightarrow> char" where
  "lower_char c =
     (let n = (of_char c :: nat) in if 65 \<le> n \<and> n \<le> 90 then char_of (n + 32) else c)"

definition str_lower :: "string \<Rightarrow> string" where
  "str_lower s = map lower_char s"

text \<open>\<open>s.endswith(suffix)\<close>, and \<open>s.endswith(tuple)\<close>: true when any member matches.\<close>

definition endswith :: "string \<Rightarrow> string \<Rightarrow> bool" where
  "endswith s suf = (length suf \<le> length s \<and> drop (length s - length suf) s = suf)"

definition endswith_any :: "string \<Rightarrow> string list \<Rightarrow> bool" where
  "endswith_any s sufs = list_ex (endswith s) sufs"

text \<open>
  \<open>os.path.join(a, b)\<close> on a POSIX system: an absolute \<open>b\<close> replaces \<open>a\<close>; otherwise
  the two are joined with one separator, which is left out when \<open>a\<close> is empty or already
  ends with it.
\<close>

definition os_path_join :: "path \<Rightarrow> string \<Rightarrow> path" where
  "os_path_join a b =
     (if b \<noteq> [] \<and> hd b = CHR ''/'' then b
      else if a = [] \<or> last a = CHR ''/'' then a @ b
      else a @ ''/'' @ b)"

section \<open>The processor classes\<close>

text \<open>
  An object of class \<open>ImageProcessor\<close> holds the attribute \<open>image\<close>; an object of the
  subclass \<open>GausianBlur\<close> holds \<open>image\<close> and \<open>kernel\<close>.
\<close>

datatype processor =
    ImageProcessor_obj image
  | GausianBlur_obj image int

fun image_of :: "processor \<Rightarrow> image" where
  "image_of (ImageProcessor_obj img) = img"
| "image_of (GausianBlur_obj img k) = img"

text \<open>
  \<open>ImageProcessor.__init__(self, filename)\<close>: the result is the value of \<open>self.image\<close>
  of the constructed object, or the exception raised.
\<close>

definition ImageProcessor_init :: "env \<Rightarrow> files \<Rightarrow> path \<Rightarrow> exn + image" where
  "ImageProcessor_init env fs filename =
     (case cv2_imread env fs filename of
        Inl e \<Rightarrow> Inl e
      | Inr None \<Rightarrow> Inl (ValueError (''Error: Image '' @ filename @ '' not found!''))
      | Inr (Some img) \<Rightarrow> Inr img)"

text \<open>\<open>GausianBlur.__init__(self, filename, kernel)\<close> calls the base constructor first.\<close>

definition GausianBlur_init :: "env \<Rightarrow> files \<Rightarrow> path \<Rightarrow> int \<Rightarrow> exn + processor" where
  "GausianBlur_init env fs filename kernel_size =
     (case ImageProcessor_init env fs filename of
        Inl e \<Rightarrow> Inl e
      | Inr img \<Rightarrow> Inr (GausianBlur_obj img kernel_size))"

text \<open>
  \<open>process\<close> is dispatched on the class of the object: the base class raises, the
  subclass replaces \<open>self.image\<close> by the blurred image and keeps \<open>self.kernel\<close>.
\<close>

fun process :: "env \<Rightarrow> processor \<Rightarrow> exn + processor" where
  "process env (ImageProcessor_obj img) =
     Inl (ValueError ''Subclasses should implement this!'')"
| "process env (GausianBlur_obj img kernel_size) =
     (case cv2_GaussianBlur env img (kernel_size, kernel_size) 0 of
        Inl e \<Rightarrow> Inl e
      | Inr blurred \<Rightarrow> Inr (GausianBlur_obj blurred kernel_size))"

text \<open>
  \<open>save_image(self, filename)\<close> calls \<open>cv2.imwrite\<close> and drops its return value: the
  file is replaced when OpenCV wrote it, and nothing changes when it reports \<open>False\<close>.
\<close>

definition save_image :: "env \<Rightarrow> processor \<Rightarrow> path \<Rightarrow> files \<Rightarrow> exn + files" where
  "save_image env p filename fs =
     (case cv2_imwrite env fs filename (image_of p) of
        Inl e \<Rightarrow> Inl e
      | Inr None \<Rightarrow> Inr fs
      | Inr (Some b) \<Rightarrow> Inr (fs(filename \<mapsto> b)))"

section \<open>The batch loop\<close>

text \<open>
  The pair \<open>filter_class, *filter_args\<close> that \<open>read_image_from_directory\<close> receives,
  for the two classes of the program with the arguments their constructors take.
\<close>

datatype filter_call =
    ImageProcessor_cls
  | GausianBlur_cls int

fun construct :: "env \<Rightarrow> filter_call \<Rightarrow> files \<Rightarrow> path \<Rightarrow> exn + processor" where
  "construct env ImageProcessor_cls fs file_path =
     (case ImageProcessor_init env fs file_path of
        Inl e \<Rightarrow> Inl e
      | Inr img \<Rightarrow> Inr (ImageProcessor_obj img))"
| "construct env (GausianBlur_cls kernel_size) fs file_path =
     GausianBlur_init env fs file_path kernel_size"

definition eligible :: "string \<Rightarrow> bool" where
  "eligible filename =
     endswith_any (str_lower filename) [''.png'', ''.jpg'', ''.jpeg'', ''.bmp'']"

definition output_path :: "path \<Rightarrow> string \<Rightarrow> path" where
  "output_path folder_path filename = os_path_join folder_path (''processed_'' @ filename)"

text \<open>The body of the \<open>try\<close> block for one entry: construct, process, save.\<close>

definition try_body :: "env \<Rightarrow> path \<Rightarrow> filter_call \<Rightarrow> string \<Rightarrow> files \<Rightarrow> exn + files" where
  "try_body env folder_path flt filename fs =
     (let file_path = os_path_join folder_path filename in
      case construct env flt fs file_path of
        Inl e \<Rightarrow> Inl e
      | Inr processor \<Rightarrow>
          (case process env processor of
             Inl e \<Rightarrow> Inl e
           | Inr processor' \<Rightarrow>
               save_image env processor' (output_path folder_path filename) fs))"

text \<open>The line printed by the \<open>except\<close> clause.\<close>

definition failure_line :: "string \<Rightarrow> exn \<Rightarrow> string" where
  "failure_line filename e = ''Failed to process '' @ filename @ '': '' @ exn_str e"

definition print :: "string \<Rightarrow> world \<Rightarrow> world" where
  "print line w = w\<lparr>stdout := stdout w @ [line]\<rparr>"

text \<open>One iteration of the \<open>for\<close> loop, and the loop over the listed names.\<close>

definition loop_body :: "env \<Rightarrow> path \<Rightarrow> filter_call \<Rightarrow> string \<Rightarrow> world \<Rightarrow> world" where
  "loop_body env folder_path flt filename w =
     (if eligible filename then
        (case try_body env folder_path flt filename (files w) of
           Inl e \<Rightarrow> print (failure_line filename e) w
         | Inr fs' \<Rightarrow> w\<lparr>files := fs'\<rparr>)
      else w)"

fun batch_loop :: "env \<Rightarrow> path \<Rightarrow> filter_call \<Rightarrow> string list \<Rightarrow> world \<Rightarrow> world" where
  "batch_loop env folder_path flt [] w = w"
| "batch_loop env folder_path flt (filename # rest) w =
     batch_loop env folder_path flt rest (loop_body env folder_path flt filename w)"

text \<open>
  \<open>read_image_from_directory\<close> has no \<open>return\<close> statement: it gives \<open>None\<close> (the unit
  value here) or lets the exception of \<open>os.listdir\<close> through.
\<close>

definition read_image_from_directory ::
  "env \<Rightarrow> path \<Rightarrow> filter_call \<Rightarrow> world \<Rightarrow> (exn + unit) \<times> world" where
  "read_image_from_directory env folder_path flt w =
     (case os_listdir env (files w) folder_path of
        Inl e \<Rightarrow> (Inl e, w)
      | Inr names \<Rightarrow> (Inr (), batch_loop env folder_path flt names w))"

section \<open>The button handler\<close>

text \<open>The two \<open>StringVar\<close>s of the form, \<open>folder_path\<close> and \<open>kernel\<close>.\<close>

record gui =
  folder_path_var :: string
  kernel_var :: string

definition showinfo :: "string \<Rightarrow> string \<Rightarrow> world \<Rightarrow> world" where
  "showinfo title message w = w\<lparr>dialogs := dialogs w @ [(title, message)]\<rparr>"

text \<open>
  \<open>apply_gaussian_blur\<close> evaluates \<open>int(kernel.get())\<close> before the call of
  \<open>read_image_from_directory\<close>; the message box is reached only when neither raised.
\<close>

definition apply_gaussian_blur :: "env \<Rightarrow> gui \<Rightarrow> world \<Rightarrow> (exn + unit) \<times> world" where
  "apply_gaussian_blur env g w =
     (case builtin_int env (kernel_var g) of
        Inl e \<Rightarrow> (Inl e, w)
      | Inr k \<Rightarrow>
          (case read_image_from_directory env (folder_path_var g) (GausianBlur_cls k) w of
             (Inl e, w') \<Rightarrow> (Inl e, w')
           | (Inr u, w') \<Rightarrow>
               (Inr (), showinfo ''Success'' ''Gaussian blur applied to all images.'' w')))"

section \<open>Observers of a batch\<close>

text \<open>
  The result of each entry the loop works on, in the order the loop meets them: the
  exception it caught, or the path it handed to \<open>save_image\<close>. This follows the loop
  step by step with the same body; it is what a caller could have been given, and is
  used below to say what the printed lines are.
\<close>

fun batch_outcomes ::
  "env \<Rightarrow> path \<Rightarrow> filter_call \<Rightarrow> string list \<Rightarrow> files \<Rightarrow> (string \<times> (exn + path)) list" where
  "batch_outcomes env folder flt [] fs = []"
| "batch_outcomes env folder flt (filename # rest) fs =
     (if eligible filename then
        (case try_body env folder flt filename fs of
           Inl e \<Rightarrow> (filename, Inl e) # batch_outcomes env folder flt rest fs
         | Inr fs' \<Rightarrow>
             (filename, Inr (output_path folder filename)) # batch_outcomes env folder flt rest fs')
      else batch_outcomes env folder flt rest fs)"

fun failure_lines :: "(string \<times> (exn + path)) list \<Rightarrow> string list" where
  "failure_lines [] = []"
| "failure_lines ((filename, Inl e) # os) = failure_line filename e # failure_lines os"
| "failure_lines ((filename, Inr p) # os) = failure_lines os"




section \<open>A reference environment\<close>

text \<open>
  A small, executable environment on which the program can be run: directories are a
  table of listings, an image file holds its three dimensions followed by its samples,
  the blur accepts exactly the kernels OpenCV accepts (both sides positive and odd) and
  keeps the array as it is, and \<open>int\<close> reads an optionally signed run of decimal digits
  with surrounding white space, single underscores allowed between digits. The texts of
  the exceptions are shortened.
\<close>

definition decode :: "bytes \<Rightarrow> image option" where
  "decode bs =
     (case bs of
        r # c # ch # rest \<Rightarrow>
          if 0 < r \<and> 0 < c \<and> 0 < ch \<and> length rest = r * c * ch
          then Some \<lparr>rows = r, cols = c, channels = ch, samples = rest\<rparr>
          else None
      | _ \<Rightarrow> None)"

definition encode :: "image \<Rightarrow> bytes" where
  "encode img = rows img # cols img # channels img # samples img"

definition ref_listdir :: "(path \<times> string list) list \<Rightarrow> files \<Rightarrow> path \<Rightarrow> exn + string list" where
  "ref_listdir dirs fs p =
     (case map_of dirs p of
        None \<Rightarrow> Inl (OSError (''No such file or directory: '' @ p))
      | Some names \<Rightarrow> Inr names)"

definition ref_imread :: "files \<Rightarrow> path \<Rightarrow> exn + image option" where
  "ref_imread fs p = Inr (case fs p of None \<Rightarrow> None | Some bs \<Rightarrow> decode bs)"

definition ref_GaussianBlur :: "image \<Rightarrow> int \<times> int \<Rightarrow> int \<Rightarrow> exn + image" where
  "ref_GaussianBlur img ksize sigma =
     (if 0 < fst ksize \<and> odd (fst ksize) \<and> 0 < snd ksize \<and> odd (snd ksize)
      then Inr img
      else Inl (cv2_error ''ksize must be positive and odd''))"

definition ref_imwrite :: "files \<Rightarrow> path \<Rightarrow> image \<Rightarrow> exn + bytes option" where
  "ref_imwrite fs p img = Inr (Some (encode img))"

definition is_space :: "char \<Rightarrow> bool" where
  "is_space c =
     (let n = (of_char c :: nat) in (9 \<le> n \<and> n \<le> 13) \<or> (28 \<le> n \<and> n \<le> 32))"

definition is_digit :: "char \<Rightarrow> bool" where
  "is_digit c = (let n = (of_char c :: nat) in 48 \<le> n \<and> n \<le> 57)"

definition digit_val :: "char \<Rightarrow> int" where
  "digit_val c = int (of_char c) - 48"

fun parse_digits :: "string \<Rightarrow> int \<Rightarrow> int option" where
  "parse_digits [] acc = Some acc"
| "parse_digits [c] acc = (if is_digit c then Some (10 * acc + digit_val c) else None)"
| "parse_digits (c # d # ds) acc =
     (if is_digit c then parse_digits (d # ds) (10 * acc + digit_val c)
      else if c = CHR ''_'' \<and> is_digit d then parse_digits ds (10 * acc + digit_val d)
      else None)"

definition parse_unsigned :: "string \<Rightarrow> int option" where
  "parse_unsigned s =
     (case s of
        [] \<Rightarrow> None
      | c # cs \<Rightarrow> if is_digit c then parse_digits cs (digit_val c) else None)"

definition strip :: "string \<Rightarrow> string" where
  "strip s = rev (dropWhile is_space (rev (dropWhile is_space s)))"

definition ref_int :: "string \<Rightarrow> exn + int" where
  "ref_int text =
     (let t = strip text;
          r = (case t of
                 [] \<Rightarrow> None
               | c # cs \<Rightarrow>
                   if c = CHR ''-'' then map_option uminus (parse_unsigned cs)
                   else if c = CHR ''+'' then parse_unsigned cs
                   else parse_unsigned t)
      in case r of
           None \<Rightarrow> Inl (ValueError (''invalid literal for int() with base 10: '' @ text))
         | Some n \<Rightarrow> Inr n)"

definition ref_env :: "(path \<times> string list) list \<Rightarrow> env" where
  "ref_env dirs =
     \<lparr>os_listdir = ref_listdir dirs,
      cv2_imread = ref_imread,
      cv2_GaussianBlur = ref_GaussianBlur,
      cv2_imwrite = ref_imwrite,
      builtin_int = ref_int\<rparr>"

text \<open>
  A folder \<open>d\<close> with two images, a file that is no image under an image name, and a
  text file; and the world in which nothing has been printed or shown yet.
\<close>

definition demo_dirs :: "(path \<times> string list) list" where
  "demo_dirs = [(''d'', [''a.jpg'', ''broken.bmp'', ''notes.txt'', ''b.PNG''])]"

definition demo_files :: files where
  "demo_files =
     [''d/a.jpg'' \<mapsto> [1, 2, 1, 10, 20],
      ''d/broken.bmp'' \<mapsto> [7],
      ''d/notes.txt'' \<mapsto> [104, 105],
      ''d/b.PNG'' \<mapsto> [1, 1, 3, 5, 6, 7]]"

definition demo_world :: world where
  "demo_world = \<lparr>files = demo_files, stdout = [], dialogs = []\<rparr>"

section \<open>Facts about the reference environment\<close>

lemma ref_env_simps:
  "os_listdir (ref_env dirs) = ref_listdir dirs"
  "cv2_imread (ref_env dirs) = ref_imread"
  "cv2_GaussianBlur (ref_env dirs) = ref_GaussianBlur"
  "cv2_imwrite (ref_env dirs) = ref_imwrite"
  "builtin_int (ref_env dirs) = ref_int"
  by (simp_all add: ref_env_def)

lemma demo_imread_a:
  "cv2_imread (ref_env demo_dirs) demo_files ''d/a.jpg''
     = Inr (Some \<lparr>rows = 1, cols = 2, channels = 1, samples = [10, 20]\<rparr>)"
  by (simp add: ref_env_simps ref_imread_def demo_files_def decode_def)

lemma demo_imread_broken:
  "cv2_imread (ref_env demo_dirs) demo_files ''d/broken.bmp'' = Inr None"
  by (simp add: ref_env_simps ref_imread_def demo_files_def decode_def)


lemma demo_listdir_missing:
  "os_listdir (ref_env demo_dirs) (files demo_world) ''nowhere''
     = Inl (OSError ''No such file or directory: nowhere'')"
  by (simp add: ref_env_simps ref_listdir_def demo_dirs_def)

section \<open>The classes\<close>

text \<open>
  Claim C10. An object of the base class \<open>ImageProcessor\<close> can be constructed from any
  file that decodes, and calling \<open>process\<close> on it raises \<open>ValueError\<close> with the message
  \<open>Subclasses should implement this!\<close>: the missing filter shows when the method is
  called, not when the object is built.
\<close>

theorem base_process_raises_at_call_time:
  "cv2_imread env fs filename = Inr (Some img) \<Longrightarrow>
     construct env ImageProcessor_cls fs filename = Inr (ImageProcessor_obj img) \<and>
     process env (ImageProcessor_obj img)
       = Inl (ValueError ''Subclasses should implement this!'')"
  by (simp add: ImageProcessor_init_def)

theorem base_process_raises_at_call_time_witness:
  "construct (ref_env demo_dirs) ImageProcessor_cls demo_files ''d/a.jpg''
     = Inr (ImageProcessor_obj \<lparr>rows = 1, cols = 2, channels = 1, samples = [10, 20]\<rparr>) \<and>
   process (ref_env demo_dirs)
       (ImageProcessor_obj \<lparr>rows = 1, cols = 2, channels = 1, samples = [10, 20]\<rparr>)
     = Inl (ValueError ''Subclasses should implement this!'')"
  using base_process_raises_at_call_time [OF demo_imread_a] by simp

text \<open>
  Claim C9. Constructing a processor of either class from a file name either gives an
  object whose \<open>image\<close> attribute is the image \<open>cv2.imread\<close> decoded, or raises: when
  \<open>cv2.imread\<close> gave no image, no object is returned.
\<close>

theorem constructed_processor_holds_decoded_image:
  "(construct env flt fs filename = Inr p \<longrightarrow>
      cv2_imread env fs filename = Inr (Some (image_of p))) \<and>
   ((\<forall>img. cv2_imread env fs filename \<noteq> Inr (Some img)) \<longrightarrow>
      (\<exists>e. construct env flt fs filename = Inl e)) \<and>
   (cv2_imread env fs filename = Inr None \<longrightarrow>
      construct env flt fs filename
        = Inl (ValueError (''Error: Image '' @ filename @ '' not found!'')))"
  by (cases flt)
     (auto simp: ImageProcessor_init_def GausianBlur_init_def split: sum.splits option.splits)

theorem constructed_processor_holds_decoded_image_witness:
  "cv2_imread (ref_env demo_dirs) demo_files ''d/a.jpg''
     = Inr (Some (image_of
         (GausianBlur_obj \<lparr>rows = 1, cols = 2, channels = 1, samples = [10, 20]\<rparr> 5))) \<and>
   construct (ref_env demo_dirs) (GausianBlur_cls 5) demo_files ''d/broken.bmp''
     = Inl (ValueError ''Error: Image d/broken.bmp not found!'')"
proof -
  have ok: "construct (ref_env demo_dirs) (GausianBlur_cls 5) demo_files ''d/a.jpg''
      = Inr (GausianBlur_obj \<lparr>rows = 1, cols = 2, channels = 1, samples = [10, 20]\<rparr> 5)"
    by (simp add: GausianBlur_init_def ImageProcessor_init_def demo_imread_a)
  from constructed_processor_holds_decoded_image
         [of "ref_env demo_dirs" "GausianBlur_cls 5" demo_files "''d/a.jpg''"
             "GausianBlur_obj \<lparr>rows = 1, cols = 2, channels = 1, samples = [10, 20]\<rparr> 5"] ok
  have a: "cv2_imread (ref_env demo_dirs) demo_files ''d/a.jpg''
     = Inr (Some (image_of
         (GausianBlur_obj \<lparr>rows = 1, cols = 2, channels = 1, samples = [10, 20]\<rparr> 5)))"
    by blast
  from constructed_processor_holds_decoded_image
         [of "ref_env demo_dirs" "GausianBlur_cls 5" demo_files "''d/broken.bmp''"]
       demo_imread_broken
  have b: "construct (ref_env demo_dirs) (GausianBlur_cls 5) demo_files ''d/broken.bmp''
     = Inl (ValueError (''Error: Image '' @ ''d/broken.bmp'' @ '' not found!''))"
    by blast
  from a b show ?thesis by simp
qed



section \<open>The directory\<close>

text \<open>
  Claim C6. When \<open>os.listdir\<close> raises for the folder (it does not exist or cannot be
  read), \<open>read_image_from_directory\<close> ends with that exception at once and the world is
  as it was: no file was read or written and nothing was printed. The button handler
  lets the exception through to its caller and shows no message box.
\<close>

theorem missing_directory_stops_batch:
  assumes "os_listdir env (files w) folder = Inl e"
  shows "read_image_from_directory env folder flt w = (Inl e, w) \<and>
         (builtin_int env (kernel_var g) = Inr k \<and> folder_path_var g = folder \<longrightarrow>
            apply_gaussian_blur env g w = (Inl e, w))"
  using assms by (simp add: read_image_from_directory_def apply_gaussian_blur_def)

theorem missing_directory_stops_batch_witness:
  "read_image_from_directory (ref_env demo_dirs) ''nowhere'' (GausianBlur_cls 5) demo_world
     = (Inl (OSError ''No such file or directory: nowhere''), demo_world) \<and>
   apply_gaussian_blur (ref_env demo_dirs)
       \<lparr>folder_path_var = ''nowhere'', kernel_var = ''5''\<rparr> demo_world
     = (Inl (OSError ''No such file or directory: nowhere''), demo_world)"
proof -
  have five: "builtin_int (ref_env demo_dirs) ''5'' = Inr 5"
    by (simp add: ref_env_simps) code_simp
  from missing_directory_stops_batch
         [OF demo_listdir_missing,
          of "GausianBlur_cls 5" "\<lparr>folder_path_var = ''nowhere'', kernel_var = ''5''\<rparr>" 5]
       five
  show ?thesis by simp
qed

section \<open>Lemmas on names, paths and the loop\<close>








lemma batch_loop_append:
  "batch_loop env folder flt (xs @ ys) w = batch_loop env folder flt ys (batch_loop env folder flt xs w)"
  by (induction xs arbitrary: w) simp_all



lemma stdout_batch_loop:
  "stdout (batch_loop env folder flt names w)
     = stdout w @ failure_lines (batch_outcomes env folder flt names (files w))"
  by (induction names arbitrary: w) (simp_all add: loop_body_def print_def split: sum.splits)


lemma try_body_raises:
  assumes "construct env flt fs (os_path_join folder filename) = Inl e \<or>
           (\<exists>p0. construct env flt fs (os_path_join folder filename) = Inr p0 \<and>
              (process env p0 = Inl e \<or>
               (\<exists>p. process env p0 = Inr p \<and>
                  save_image env p (output_path folder filename) fs = Inl e)))"
  shows "try_body env folder flt filename fs = Inl e"
  using assms by (auto simp: try_body_def)

lemma output_path_explicit:
  "os_path_join folder (''processed_'' @ filename)
     = (if folder = [] \<or> last folder = CHR ''/'' then folder else folder @ ''/'')
       @ ''processed_'' @ filename"
  by (simp add: os_path_join_def)



lemma demo_listdir:
  "os_listdir (ref_env demo_dirs) (files demo_world) ''d''
     = Inr ([''a.jpg''] @ ''broken.bmp'' # [''notes.txt'', ''b.PNG''])"
  by (simp add: ref_env_simps ref_listdir_def demo_dirs_def)


section \<open>Which entries are processed\<close>



section \<open>Where the output goes\<close>

text \<open>
  Claim C8. For an image-named entry \<open>F\<close> whose decoding, processing and writing all
  succeed, one loop step changes the world in exactly one place: the file at
  \<open>os.path.join(folder, "processed_" + F)\<close> now holds the encoded result. That path is
  the folder, a separator unless the folder already ends with one, and \<open>processed_F\<close>.
\<close>

theorem output_written_as_processed_name:
  assumes "eligible filename"
    and "construct env flt (files w) (os_path_join folder filename) = Inr p0"
    and "process env p0 = Inr p"
    and "cv2_imwrite env (files w) (os_path_join folder (''processed_'' @ filename)) (image_of p)
           = Inr (Some b)"
  shows "loop_body env folder flt filename w
           = w\<lparr>files := (files w)(os_path_join folder (''processed_'' @ filename) \<mapsto> b)\<rparr> \<and>
         os_path_join folder (''processed_'' @ filename)
           = (if folder = [] \<or> last folder = CHR ''/'' then folder else folder @ ''/'')
             @ ''processed_'' @ filename"
proof (rule conjI)
  have "try_body env folder flt filename (files w)
          = Inr ((files w)(os_path_join folder (''processed_'' @ filename) \<mapsto> b))"
    using assms(2-4) by (simp add: try_body_def save_image_def output_path_def)
  with assms(1) show "loop_body env folder flt filename w
      = w\<lparr>files := (files w)(os_path_join folder (''processed_'' @ filename) \<mapsto> b)\<rparr>"
    by (simp add: loop_body_def)
next
  show "os_path_join folder (''processed_'' @ filename)
           = (if folder = [] \<or> last folder = CHR ''/'' then folder else folder @ ''/'')
             @ ''processed_'' @ filename"
    by (rule output_path_explicit)
qed

theorem output_written_as_processed_name_witness:
  "eligible ''a.jpg'' \<and>
   loop_body (ref_env demo_dirs) ''d'' (GausianBlur_cls 5) ''a.jpg'' demo_world
     = demo_world\<lparr>files := demo_files(''d/processed_a.jpg'' \<mapsto> [1, 2, 1, 10, 20])\<rparr>"
proof -
  let ?img = "\<lparr>rows = 1, cols = 2, channels = 1, samples = [10, 20]\<rparr>"
  have el: "eligible ''a.jpg''" by code_simp
  have j: "os_path_join ''d'' ''a.jpg'' = ''d/a.jpg''" by (simp add: os_path_join_def)
  have c: "construct (ref_env demo_dirs) (GausianBlur_cls 5) (files demo_world)
             (os_path_join ''d'' ''a.jpg'') = Inr (GausianBlur_obj ?img 5)"
    using demo_imread_a
    by (simp add: j GausianBlur_init_def ImageProcessor_init_def demo_world_def)
  have p: "process (ref_env demo_dirs) (GausianBlur_obj ?img 5) = Inr (GausianBlur_obj ?img 5)"
    by (simp add: ref_env_simps ref_GaussianBlur_def)
  have s: "cv2_imwrite (ref_env demo_dirs) (files demo_world)
             (os_path_join ''d'' (''processed_'' @ ''a.jpg'')) (image_of (GausianBlur_obj ?img 5))
           = Inr (Some [1, 2, 1, 10, 20])"
    by (simp add: ref_env_simps ref_imwrite_def encode_def)
  from output_written_as_processed_name [OF el c p s] el
  show ?thesis by (simp add: demo_world_def)
qed

section \<open>A failing file\<close>

text \<open>
  Claim C1, as the program has it. When the construction, the \<open>process\<close> call or the
  \<open>save_image\<close> call of an image-named entry raises, the \<open>except\<close> clause catches
  the exception and prints the line \<open>Failed to process <file name>: <text>\<close>; no file
  changes in that step, the loop goes on with the entries that follow, and the call
  returns normally. The report is a printed line that names the entry by its file name:
  nothing is stored or returned, and the joined path is not part of it.
\<close>

theorem failing_file_is_reported_and_skipped:
  assumes "os_listdir env (files w) folder = Inr (before @ filename # rest)"
    and "eligible filename"
    and "w1 = batch_loop env folder flt before w"
    and "construct env flt (files w1) (os_path_join folder filename) = Inl e \<or>
         (\<exists>p0. construct env flt (files w1) (os_path_join folder filename) = Inr p0 \<and>
            (process env p0 = Inl e \<or>
             (\<exists>p. process env p0 = Inr p \<and>
                save_image env p (output_path folder filename) (files w1) = Inl e)))"
  shows "read_image_from_directory env folder flt w
           = (Inr (), batch_loop env folder flt rest (print (failure_line filename e) w1)) \<and>
         files (print (failure_line filename e) w1) = files w1 \<and>
         failure_line filename e
           \<in> set (stdout (snd (read_image_from_directory env folder flt w)))"
proof -
  from assms(4) have t: "try_body env folder flt filename (files w1) = Inl e"
    by (rule try_body_raises)
  with assms(2) have lb: "loop_body env folder flt filename w1 = print (failure_line filename e) w1"
    by (simp add: loop_body_def)
  have r: "read_image_from_directory env folder flt w
           = (Inr (), batch_loop env folder flt rest (print (failure_line filename e) w1))"
    using assms(1,3) lb by (simp add: read_image_from_directory_def batch_loop_append)
  have "failure_line filename e \<in> set (stdout (print (failure_line filename e) w1))"
    by (simp add: print_def)
  then have "failure_line filename e
      \<in> set (stdout (batch_loop env folder flt rest (print (failure_line filename e) w1)))"
    by (simp add: stdout_batch_loop)
  with r show ?thesis by (simp add: print_def)
qed

theorem failing_file_is_reported_and_skipped_witness:
  "eligible ''broken.bmp'' \<and>
   fst (read_image_from_directory (ref_env demo_dirs) ''d'' (GausianBlur_cls 5) demo_world)
     = Inr () \<and>
   failure_line ''broken.bmp'' (ValueError ''Error: Image d/broken.bmp not found!'')
     \<in> set (stdout (snd (read_image_from_directory (ref_env demo_dirs) ''d''
                            (GausianBlur_cls 5) demo_world)))"
proof -
  have el: "eligible ''broken.bmp''" by code_simp
  have c: "construct (ref_env demo_dirs) (GausianBlur_cls 5)
             (files (batch_loop (ref_env demo_dirs) ''d'' (GausianBlur_cls 5) [''a.jpg''] demo_world))
             (os_path_join ''d'' ''broken.bmp'')
           = Inl (ValueError ''Error: Image d/broken.bmp not found!'')"
    by code_simp
  note t = failing_file_is_reported_and_skipped
         [OF demo_listdir el refl disjI1 [OF c]]
  from t have 1: "fst (read_image_from_directory (ref_env demo_dirs) ''d'' (GausianBlur_cls 5)
                         demo_world) = Inr ()"
    by (metis fst_conv)
  from t have 2: "failure_line ''broken.bmp'' (ValueError ''Error: Image d/broken.bmp not found!'')
     \<in> set (stdout (snd (read_image_from_directory (ref_env demo_dirs) ''d''
                            (GausianBlur_cls 5) demo_world)))"
    by blast
  from el 1 2 show ?thesis by blast
qed

text \<open>
  Claim C1 as stated asks for a (path, reason) entry. In the folder \<open>d\<close> the file
  \<open>broken.bmp\<close> does not decode: the call returns \<open>None\<close>, the one line printed
  names \<open>broken.bmp\<close>, and no line for the path \<open>d/broken.bmp\<close> exists.
\<close>

theorem failure_entry_counterexample:
  "fst (read_image_from_directory (ref_env demo_dirs) ''d'' (GausianBlur_cls 5) demo_world)
     = Inr () \<and>
   stdout (snd (read_image_from_directory (ref_env demo_dirs) ''d'' (GausianBlur_cls 5) demo_world))
     = [''Failed to process broken.bmp: Error: Image d/broken.bmp not found!''] \<and>
   failure_line (os_path_join ''d'' ''broken.bmp'')
       (ValueError ''Error: Image d/broken.bmp not found!'')
     \<notin> set (stdout (snd (read_image_from_directory (ref_env demo_dirs) ''d''
                            (GausianBlur_cls 5) demo_world)))"
  by code_simp

section \<open>What the batch gives back\<close>




section \<open>The kernel text\<close>




section \<open>Even kernel sizes\<close>




end
